theory Spec2Isabelle
  imports Complex_Main "HOL-Library.Log_Nat" "HOL-Library.Word" "HOL-Library.Sublist"
begin

section \<open>Go floating point: IEEE 754 binary32 and binary64\<close>

text \<open>
  The metric functions of \<^verbatim>\<open>weather_calc.go\<close> compute on Go's \<^verbatim>\<open>float32\<close>, with two
  detours through \<^verbatim>\<open>float64\<close> for \<^verbatim>\<open>math.Log\<close> and \<^verbatim>\<open>math.Pow\<close>. A float is modelled
  by its value: not-a-number, an infinity with its sign (\<open>True\<close> is negative), negative
  zero, or a finite rational (\<open>Finite 0\<close> is positive zero). Every operation computes the
  exact rational result and rounds it once, to nearest with ties to even, into the format.
  Each Go operation is rounded on its own (no fused multiply-add), as the Go compiler
  does on amd64.
\<close>

datatype ieee = NaN | Infinity bool | NegZero | Finite rat

type_synonym float32 = ieee
type_synonym float64 = ieee

record format =
  prec :: nat
  emax :: int

definition binary32 :: format where
  "binary32 = \<lparr>prec = 24, emax = 127\<rparr>"

definition binary64 :: format where
  "binary64 = \<lparr>prec = 53, emax = 1023\<rparr>"

definition pow2 :: "int \<Rightarrow> rat" where
  "pow2 e = (if 0 \<le> e then 2 ^ nat e else 1 / 2 ^ nat (- e))"

text \<open>\<open>ilog2 r\<close> is the exponent \<open>e\<close> with \<open>2^e \<le> |r| < 2^(e+1)\<close>, for \<open>r \<noteq> 0\<close>.\<close>

definition ilog2 :: "rat \<Rightarrow> int" where
  "ilog2 r = (let (a, b) = quotient_of \<bar>r\<bar>; d = bitlen a - bitlen b
              in if pow2 d \<le> \<bar>r\<bar> then d else d - 1)"

definition round_half_even :: "rat \<Rightarrow> int" where
  "round_half_even x = (let f = \<lfloor>x\<rfloor>; d = x - of_int f
     in if d < 1 / 2 then f else if 1 / 2 < d then f + 1 else if even f then f else f + 1)"

text \<open>
  Rounding a rational into a format: the quantum is \<open>2^(e - (prec - 1))\<close> for the exponent
  \<open>e\<close> of the value, not below the smallest normal exponent \<open>1 - emax\<close> (so small values
  become subnormal, then zero with the sign kept); a rounded magnitude of \<open>2^(emax + 1)\<close>
  or more overflows to infinity.
\<close>

definition fround :: "format \<Rightarrow> rat \<Rightarrow> ieee" where
  "fround fm r = (if r = 0 then Finite 0 else
     let e = max (ilog2 r) (1 - emax fm);
         q = pow2 (e - (int (prec fm) - 1));
         v = of_int (round_half_even (\<bar>r\<bar> / q)) * q
     in if pow2 (emax fm + 1) \<le> v then Infinity (r < 0)
        else if v = 0 then (if r < 0 then NegZero else Finite 0)
        else Finite (if r < 0 then - v else v))"

fun fval :: "ieee \<Rightarrow> rat" where
  "fval (Finite r) = r"
| "fval _ = 0"

fun fsign :: "ieee \<Rightarrow> bool" where
  "fsign (Infinity s) = s"
| "fsign NegZero = True"
| "fsign (Finite r) = (r < 0)"
| "fsign NaN = False"

fun is_inf :: "ieee \<Rightarrow> bool" where
  "is_inf (Infinity s) = True"
| "is_inf _ = False"

fun is_zero :: "ieee \<Rightarrow> bool" where
  "is_zero NegZero = True"
| "is_zero (Finite r) = (r = 0)"
| "is_zero _ = False"

definition fzero :: "bool \<Rightarrow> ieee" where
  "fzero s = (if s then NegZero else Finite 0)"

fun fneg :: "ieee \<Rightarrow> ieee" where
  "fneg NaN = NaN"
| "fneg (Infinity s) = Infinity (\<not> s)"
| "fneg NegZero = Finite 0"
| "fneg (Finite r) = (if r = 0 then NegZero else Finite (- r))"

definition fadd :: "format \<Rightarrow> ieee \<Rightarrow> ieee \<Rightarrow> ieee" where
  "fadd fm x y =
     (if x = NaN \<or> y = NaN then NaN
      else if is_inf x \<and> is_inf y then (if fsign x = fsign y then x else NaN)
      else if is_inf x then x
      else if is_inf y then y
      else if x = NegZero \<and> y = NegZero then NegZero
      else fround fm (fval x + fval y))"

definition fsub :: "format \<Rightarrow> ieee \<Rightarrow> ieee \<Rightarrow> ieee" where
  "fsub fm x y = fadd fm x (fneg y)"

definition fmul :: "format \<Rightarrow> ieee \<Rightarrow> ieee \<Rightarrow> ieee" where
  "fmul fm x y =
     (if x = NaN \<or> y = NaN then NaN
      else if is_inf x \<or> is_inf y then
        (if is_zero x \<or> is_zero y then NaN else Infinity (fsign x \<noteq> fsign y))
      else if is_zero x \<or> is_zero y then fzero (fsign x \<noteq> fsign y)
      else fround fm (fval x * fval y))"

definition fdiv :: "format \<Rightarrow> ieee \<Rightarrow> ieee \<Rightarrow> ieee" where
  "fdiv fm x y =
     (if x = NaN \<or> y = NaN then NaN
      else if is_inf x then (if is_inf y then NaN else Infinity (fsign x \<noteq> fsign y))
      else if is_inf y then fzero (fsign x \<noteq> fsign y)
      else if is_zero y then (if is_zero x then NaN else Infinity (fsign x \<noteq> fsign y))
      else if is_zero x then fzero (fsign x \<noteq> fsign y)
      else fround fm (fval x / fval y))"

text \<open>
  Go's comparisons: every comparison with a NaN is false, the two zeros are equal.
  \<open>fless x y\<close> is \<^verbatim>\<open>x < y\<close>, \<open>feq x y\<close> is \<^verbatim>\<open>x == y\<close>, \<open>fle x y\<close> is \<^verbatim>\<open>x <= y\<close>;
  \<^verbatim>\<open>x >= y\<close> is \<open>fle y x\<close> and \<^verbatim>\<open>x > y\<close> is \<open>fless y x\<close>.
\<close>

fun fless :: "ieee \<Rightarrow> ieee \<Rightarrow> bool" where
  "fless NaN y = False"
| "fless x NaN = False"
| "fless (Infinity s) (Infinity t) = (s \<and> \<not> t)"
| "fless (Infinity s) y = s"
| "fless x (Infinity t) = (\<not> t)"
| "fless x y = (fval x < fval y)"

fun feq :: "ieee \<Rightarrow> ieee \<Rightarrow> bool" where
  "feq NaN y = False"
| "feq x NaN = False"
| "feq (Infinity s) (Infinity t) = (s = t)"
| "feq (Infinity s) y = False"
| "feq x (Infinity t) = False"
| "feq x y = (fval x = fval y)"

definition fle :: "ieee \<Rightarrow> ieee \<Rightarrow> bool" where
  "fle x y = (fless x y \<or> feq x y)"

text \<open>
  Conversions. An untyped Go constant used with a \<^verbatim>\<open>float32\<close> operand is converted to
  \<^verbatim>\<open>float32\<close> (\<open>f32 c\<close> for the exact constant \<open>c\<close>); \<^verbatim>\<open>float64(x)\<close> of a \<^verbatim>\<open>float32\<close> is exact,
  \<^verbatim>\<open>float32(y)\<close> of a \<^verbatim>\<open>float64\<close> rounds, and so does the conversion of an unsigned integer.
\<close>

definition f32 :: "rat \<Rightarrow> float32" where
  "f32 c = fround binary32 c"

definition f64 :: "rat \<Rightarrow> float64" where
  "f64 c = fround binary64 c"

fun fconv :: "format \<Rightarrow> ieee \<Rightarrow> ieee" where
  "fconv fm (Finite r) = fround fm r"
| "fconv fm x = x"

definition float64_of_float32 :: "float32 \<Rightarrow> float64" where
  "float64_of_float32 x = fconv binary64 x"

definition float32_of_float64 :: "float64 \<Rightarrow> float32" where
  "float32_of_float64 x = fconv binary32 x"

definition float32_of_uint :: "'a::len word \<Rightarrow> float32" where
  "float32_of_uint n = fround binary32 (of_nat (unat n))"

text \<open>
  \<^verbatim>\<open>math.Log\<close> and \<^verbatim>\<open>math.Pow\<close> belong to Go's standard library, not to this repository.
  The model keeps the special cases their documentation fixes and that the guards of
  the metric functions can meet (\<^verbatim>\<open>Log(NaN) = NaN\<close>, \<^verbatim>\<open>Log(+Inf) = +Inf\<close>, \<^verbatim>\<open>Log(x < 0) = NaN\<close>,
  \<^verbatim>\<open>Log(0) = -Inf\<close>; \<^verbatim>\<open>Pow(x, 0) = 1\<close>, \<^verbatim>\<open>Pow(1, y) = 1\<close>); what the library computes in every
  other case is the parameter \<open>lg\<close>, respectively \<open>pw\<close>.
\<close>

definition math_Log :: "(float64 \<Rightarrow> float64) \<Rightarrow> float64 \<Rightarrow> float64" where
  "math_Log lg x =
     (if x = NaN \<or> x = Infinity False then x
      else if fless x (f64 0) then NaN
      else if feq x (f64 0) then Infinity True
      else lg x)"

definition math_Pow :: "(float64 \<Rightarrow> float64 \<Rightarrow> float64) \<Rightarrow> float64 \<Rightarrow> float64 \<Rightarrow> float64" where
  "math_Pow pw x y = (if feq y (f64 0) \<or> feq x (f64 1) then f64 1 else pw x y)"

section \<open>Metric Calculator (weather\_calc.go)\<close>

definition fToC :: "float32 \<Rightarrow> float32" where
  "fToC t = fdiv binary32 (fmul binary32 (fsub binary32 t (f32 32)) (f32 5)) (f32 9)"

definition cToF :: "float32 \<Rightarrow> float32" where
  "cToF t = fadd binary32 (fdiv binary32 (fmul binary32 t (f32 9)) (f32 5)) (f32 32)"

text \<open>The local variable \<^verbatim>\<open>\<gamma>\<close> of \<^verbatim>\<open>dewpointCelcius\<close>, after \<^verbatim>\<open>rh = rh / 100.0\<close>.\<close>

definition dewpoint_gamma :: "(float64 \<Rightarrow> float64) \<Rightarrow> float32 \<Rightarrow> float32 \<Rightarrow> float32" where
  "dewpoint_gamma lg t rh =
     (let rh' = fdiv binary32 rh (f32 100)
      in fadd binary32
           (fdiv binary32 (fmul binary32 (f32 (1727 / 100)) t) (fadd binary32 (f32 (2377 / 10)) t))
           (float32_of_float64 (math_Log lg (float64_of_float32 rh'))))"

definition dewpointCelcius :: "(float64 \<Rightarrow> float64) \<Rightarrow> float32 \<Rightarrow> float32 \<Rightarrow> float32" where
  "dewpointCelcius lg t rh =
     (if fless t (f32 0) then f32 0
      else if feq t (f32 (- (2377 / 10))) then f32 0
      else let \<gamma> = dewpoint_gamma lg t rh
           in if feq \<gamma> (f32 (1727 / 100)) then f32 0
              else fdiv binary32 (fmul binary32 (f32 (2377 / 10)) \<gamma>)
                                 (fsub binary32 (f32 (1727 / 100)) \<gamma>))"

definition dewpointFahrenheit :: "(float64 \<Rightarrow> float64) \<Rightarrow> float32 \<Rightarrow> float32 \<Rightarrow> float32" where
  "dewpointFahrenheit lg t rh = cToF (dewpointCelcius lg (fToC t) rh)"

definition windchillFahrenheit ::
  "(float64 \<Rightarrow> float64 \<Rightarrow> float64) \<Rightarrow> float32 \<Rightarrow> float32 \<Rightarrow> float32" where
  "windchillFahrenheit pw t ws =
     (if fle (f32 50) t \<or> fle ws (f32 0) then t
      else fadd binary32
             (fadd binary32 (f32 (3574 / 100)) (fmul binary32 (f32 (6215 / 10000)) t))
             (fmul binary32
                (fadd binary32 (f32 (- (3575 / 100))) (fmul binary32 (f32 (4275 / 10000)) t))
                (float32_of_float64 (math_Pow pw (float64_of_float32 ws) (f64 (16 / 100))))))"

text \<open>
  The heat index is one Go expression, a chain of \<^verbatim>\<open>+\<close> and \<^verbatim>\<open>-\<close> over nine terms, each a
  chain of \<^verbatim>\<open>*\<close>; both associate to the left. \<open>hi_term c xs\<close> is the product
  \<^verbatim>\<open>c*x1*...*xn\<close> of one term. The constants are the source's literals: \<^verbatim>\<open>6.83783e-3\<close> is
  \<open>683783 / 100000 / 10 ^ 3\<close>.
\<close>

definition hi_term :: "rat \<Rightarrow> float32 list \<Rightarrow> float32" where
  "hi_term c xs = foldl (fmul binary32) (f32 c) xs"

definition heatIndexFahrenheit :: "float32 \<Rightarrow> float32 \<Rightarrow> float32" where
  "heatIndexFahrenheit t rh =
     (if fless t (f32 80) \<or> fle rh (f32 40) then t
      else
        fsub binary32
         (fadd binary32
           (fadd binary32
             (fsub binary32
               (fsub binary32
                 (fsub binary32
                   (fadd binary32
                     (fadd binary32 (f32 (- (42379 / 1000)))
                       (hi_term (204901523 / 100000000) [t]))
                     (hi_term (1014333127 / 100000000) [rh]))
                   (hi_term (22475541 / 100000000) [t, rh]))
                 (hi_term (683783 / 100000 / 10 ^ 3) [t, t]))
               (hi_term (5481717 / 1000000 / 10 ^ 2) [rh, rh]))
             (hi_term (122874 / 100000 / 10 ^ 3) [t, t, rh]))
           (hi_term (85282 / 10000 / 10 ^ 4) [t, rh, rh]))
         (hi_term (199 / 100 / 10 ^ 6) [t, t, rh, rh]))"

text \<open>
  The formulas as the specification words them, to compare the code with:
  wind chill \<^verbatim>\<open>35.74 + 0.6215 t + (-35.75 + 0.4275 t) windMph^0.16\<close>, and NOAA's heat index
  regression with the coefficients as NOAA publishes them; both in single precision,
  summed and multiplied from left to right.
\<close>

definition spec_windChill_formula ::
  "(float64 \<Rightarrow> float64 \<Rightarrow> float64) \<Rightarrow> float32 \<Rightarrow> float32 \<Rightarrow> float32" where
  "spec_windChill_formula pw t windMph =
     fadd binary32
       (fadd binary32 (f32 (3574 / 100)) (fmul binary32 (f32 (6215 / 10000)) t))
       (fmul binary32
          (fadd binary32 (f32 (- (3575 / 100))) (fmul binary32 (f32 (4275 / 10000)) t))
          (float32_of_float64 (math_Pow pw (float64_of_float32 windMph) (f64 (16 / 100)))))"

definition noaa_terms :: "float32 \<Rightarrow> float32 \<Rightarrow> (bool \<times> rat \<times> float32 list) list" where
  "noaa_terms t rh =
     [(True, 204901523 / 100000000, [t]),
      (True, 1014333127 / 100000000, [rh]),
      (False, 22475541 / 100000000, [t, rh]),
      (False, 683783 / 100000000, [t, t]),
      (False, 5481717 / 100000000, [rh, rh]),
      (True, 122874 / 100000000, [t, t, rh]),
      (True, 85282 / 100000000, [t, rh, rh]),
      (False, 199 / 100000000, [t, t, rh, rh])]"

definition spec_noaa_heat_index :: "float32 \<Rightarrow> float32 \<Rightarrow> float32" where
  "spec_noaa_heat_index t rh =
     foldl (\<lambda>acc (plus, c, xs).
              (if plus then fadd binary32 else fsub binary32) acc
                (foldl (fmul binary32) (f32 c) xs))
           (f32 (- (42379 / 1000))) (noaa_terms t rh)"

section \<open>Packets and reports (wxinflux.go)\<close>

record WxPacket =
  Ready :: bool
  Status :: string
  TransmitterID :: "8 word"
  RSSI :: "16 word"
  RxPackets :: "16 word"
  LostPackets :: "16 word"
  BadCRCPackets :: "16 word"
  WindSpeed :: "8 word"
  WindDir :: "16 word"
  Temperature :: float32
  Humidity :: float32
  UVIndex :: float32
  SolarRadiation :: float32
  RainSpoons :: "32 word"
  Raw :: string
  Version :: string

record WxReport =
  rTransmitterID :: "8 word"
  rWindSpeed :: "8 word"
  rWindDir :: "16 word"
  rTemperature :: float32
  rHumidity :: float32
  rDewpoint :: float32
  rHeatIndex :: float32
  rWindChill :: float32
  rUVIndex :: float32
  rSolarRadiation :: float32
  rRainfall :: float32

definition generateWxReport ::
  "(float64 \<Rightarrow> float64) \<Rightarrow> (float64 \<Rightarrow> float64 \<Rightarrow> float64) \<Rightarrow> WxPacket \<Rightarrow> WxReport" where
  "generateWxReport lg pw p =
     \<lparr>rTransmitterID = TransmitterID p,
      rWindSpeed = WindSpeed p,
      rWindDir = WindDir p,
      rTemperature = Temperature p,
      rHumidity = Humidity p,
      rDewpoint = dewpointFahrenheit lg (Temperature p) (Humidity p),
      rHeatIndex = heatIndexFahrenheit (Temperature p) (Humidity p),
      rWindChill = windchillFahrenheit pw (Temperature p) (float32_of_uint (WindSpeed p)),
      rUVIndex = UVIndex p,
      rSolarRadiation = SolarRadiation p,
      rRainfall = fmul binary32 (float32_of_uint (RainSpoons p)) (f32 (1 / 10))\<rparr>"

text \<open>
  The reader declares \<^verbatim>\<open>var packet WxPacket\<close> afresh before each \<^verbatim>\<open>dec.Decode(&packet)\<close>, so
  the decoder fills a struct of zero values and a key the JSON object does not carry
  leaves its field at zero. \<open>wire\<close> is one JSON object of the stream, each key present
  or absent.
\<close>

definition zero_WxPacket :: WxPacket where
  "zero_WxPacket =
     \<lparr>Ready = False, Status = [], TransmitterID = 0, RSSI = 0, RxPackets = 0,
      LostPackets = 0, BadCRCPackets = 0, WindSpeed = 0, WindDir = 0,
      Temperature = Finite 0, Humidity = Finite 0, UVIndex = Finite 0,
      SolarRadiation = Finite 0, RainSpoons = 0, Raw = [], Version = []\<rparr>"

record wire =
  j_ready :: "bool option"
  j_status :: "string option"
  j_transmitter_id :: "8 word option"
  j_RSSI :: "16 word option"
  j_recv_packets :: "16 word option"
  j_lost_packets :: "16 word option"
  j_bad_CRC :: "16 word option"
  j_wind_speed_mph :: "8 word option"
  j_wind_direction_degrees :: "16 word option"
  j_temperature_F :: "float32 option"
  j_humidity_pct :: "float32 option"
  j_UV_index :: "float32 option"
  j_solar_Wm2 :: "float32 option"
  j_rain_spoons :: "32 word option"
  j_raw :: "string option"
  j_version :: "string option"

definition orElse :: "'a option \<Rightarrow> 'a \<Rightarrow> 'a" where
  "orElse v d = (case v of None \<Rightarrow> d | Some x \<Rightarrow> x)"

definition unmarshal :: "wire \<Rightarrow> WxPacket \<Rightarrow> WxPacket" where
  "unmarshal j p =
     \<lparr>Ready = orElse (j_ready j) (Ready p),
      Status = orElse (j_status j) (Status p),
      TransmitterID = orElse (j_transmitter_id j) (TransmitterID p),
      RSSI = orElse (j_RSSI j) (RSSI p),
      RxPackets = orElse (j_recv_packets j) (RxPackets p),
      LostPackets = orElse (j_lost_packets j) (LostPackets p),
      BadCRCPackets = orElse (j_bad_CRC j) (BadCRCPackets p),
      WindSpeed = orElse (j_wind_speed_mph j) (WindSpeed p),
      WindDir = orElse (j_wind_direction_degrees j) (WindDir p),
      Temperature = orElse (j_temperature_F j) (Temperature p),
      Humidity = orElse (j_humidity_pct j) (Humidity p),
      UVIndex = orElse (j_UV_index j) (UVIndex p),
      SolarRadiation = orElse (j_solar_Wm2 j) (SolarRadiation p),
      RainSpoons = orElse (j_rain_spoons j) (RainSpoons p),
      Raw = orElse (j_raw j) (Raw p),
      Version = orElse (j_version j) (Version p)\<rparr>"

definition decodePacket :: "wire \<Rightarrow> WxPacket" where
  "decodePacket j = unmarshal j zero_WxPacket"

section \<open>Connection Manager (wxinflux.go, config.go)\<close>

datatype ConnStatus = NotConnected | Connecting | Connected

record InfluxDBConfig =
  InfluxURL :: string
  InfluxDBName :: string
  InfluxUser :: string
  InfluxPass :: string

record Si2000Config =
  Device :: string
  Baud :: "16 word"

record Config =
  InfluxDB :: InfluxDBConfig
  Si2000 :: Si2000Config

text \<open>
  \<^verbatim>\<open>sync.RWMutex\<close>, as one goroutine sees it: only the reader goroutine ever touches
  \<^verbatim>\<open>statusMu\<close>. A call that cannot proceed (\<^verbatim>\<open>Lock\<close> while a read lock is held, an unlock
  of a mutex that is not locked) never returns to its caller: the result is \<open>None\<close>.
\<close>

record RWMutex =
  readers :: nat
  writing :: bool

definition RLock :: "RWMutex \<Rightarrow> RWMutex option" where
  "RLock m = (if writing m then None else Some (m\<lparr>readers := Suc (readers m)\<rparr>))"

definition RUnlock :: "RWMutex \<Rightarrow> RWMutex option" where
  "RUnlock m = (if readers m = 0 then None else Some (m\<lparr>readers := readers m - 1\<rparr>))"

definition Lock :: "RWMutex \<Rightarrow> RWMutex option" where
  "Lock m = (if writing m \<or> 0 < readers m then None else Some (m\<lparr>writing := True\<rparr>))"

definition Unlock :: "RWMutex \<Rightarrow> RWMutex option" where
  "Unlock m = (if writing m then Some (m\<lparr>writing := False\<rparr>) else None)"

text \<open>An open serial port (the \<^verbatim>\<open>io.ReadWriteCloser\<close> of \<^verbatim>\<open>serial.OpenPort\<close>); \<open>None\<close> is \<^verbatim>\<open>nil\<close>.\<close>

type_synonym port = nat

record DavisSi1000 =
  config :: Config
  conn :: "port option"
  status :: ConnStatus
  statusMu :: RWMutex

definition NewDavisSi1000 :: DavisSi1000 where
  "NewDavisSi1000 =
     \<lparr>config = \<lparr>InfluxDB = \<lparr>InfluxURL = [], InfluxDBName = [], InfluxUser = [], InfluxPass = []\<rparr>,
                Si2000 = \<lparr>Device = [], Baud = 0\<rparr>\<rparr>,
      conn = None, status = NotConnected, statusMu = \<lparr>readers = 0, writing = False\<rparr>\<rparr>"

text \<open>Points and batches of the InfluxDB client, as \<^verbatim>\<open>storeReports\<close> builds them.\<close>

datatype field_value = U8 "8 word" | U16 "16 word" | F32 float32

record Point =
  pt_name :: string
  pt_tags :: "string \<rightharpoonup> string"
  pt_fields :: "string \<rightharpoonup> field_value"
  pt_time :: nat

record BatchPoints =
  database :: string
  precision :: string
  points :: "Point list"

text \<open>
  What the program does to the world, in order: log lines, attempts to open the serial
  device, sleeps (in seconds), writes to \<^verbatim>\<open>d.status\<close>, decoders made over a connection,
  reports sent on and received from the channel, and calls of the InfluxDB client.
\<close>

datatype event =
    Println string
  | PrintfReport WxReport
  | OpenPort string int
  | Sleep nat
  | SetStatus ConnStatus
  | NewDecoder "port option"
  | Send WxReport
  | Receive WxReport
  | NewBatchPoints string string
  | InfluxWrite BatchPoints

text \<open>
  The world of the reader goroutine: the events so far and the number of calls of
  \<^verbatim>\<open>serial.OpenPort\<close> made. The outcome of the \<open>k\<close>-th call is \<open>opens k\<close>: a port, or
  \<open>None\<close> for an error (the library then returns a \<^verbatim>\<open>nil\<close> port along with the error).
\<close>

record world =
  trace :: "event list"
  opened :: nat

definition emit :: "event list \<Rightarrow> world \<Rightarrow> world" where
  "emit es w = w\<lparr>trace := trace w @ es\<rparr>"

definition openEvent :: "DavisSi1000 \<Rightarrow> event" where
  "openEvent d = OpenPort (Device (Si2000 (config d))) (uint (Baud (Si2000 (config d))))"

text \<open>
  The retry loop of \<^verbatim>\<open>connectToSerialSi1000\<close>. It has no bound: when every attempt fails
  it never returns, which is the value \<open>None\<close>.
\<close>

partial_function (option) openLoop ::
  "(nat \<Rightarrow> port option) \<Rightarrow> DavisSi1000 \<Rightarrow> world \<Rightarrow> (DavisSi1000 \<times> world) option" where
  "openLoop opens d w =
     (let d1 = d\<lparr>conn := opens (opened w)\<rparr>;
          w1 = emit [openEvent d] (w\<lparr>opened := Suc (opened w)\<rparr>)
      in case opens (opened w) of
           None \<Rightarrow>
             openLoop opens d1 (emit [Println ''Sleeping 5 seconds and trying again'', Sleep 5] w1)
         | Some h \<Rightarrow>
             Option.bind (Lock (statusMu d1)) (\<lambda>m1.
             Option.bind (Unlock m1) (\<lambda>m2.
               Some (d1\<lparr>status := Connected, statusMu := m2\<rparr>,
                     emit [SetStatus Connected,
                           Println (''Connection to local Si1000 on '' @ Device (Si2000 (config d))
                                    @ '' successful.'')] w1))))"

definition connectToSerialSi1000 ::
  "(nat \<Rightarrow> port option) \<Rightarrow> DavisSi1000 \<Rightarrow> world \<Rightarrow> (DavisSi1000 \<times> world) option" where
  "connectToSerialSi1000 opens d w =
     Option.bind (RLock (statusMu d)) (\<lambda>m1.
       case status d of
         Connecting \<Rightarrow>
           Option.bind (RUnlock m1) (\<lambda>m2.
             Some (d\<lparr>statusMu := m2\<rparr>,
                   emit [Println ''Skipping reconnect since connection is in progress''] w))
       | NotConnected \<Rightarrow>
           Option.bind (RUnlock m1) (\<lambda>m2.
           Option.bind (Lock m2) (\<lambda>m3.
           Option.bind (Unlock m3) (\<lambda>m4.
             openLoop opens (d\<lparr>status := Connecting, statusMu := m4\<rparr>)
               (emit [SetStatus Connecting,
                      Println (''Connecting to local Si1000 on '' @ Device (Si2000 (config d))
                               @ '' ...'')] w))))
       | Connected \<Rightarrow> Some (d\<lparr>statusMu := m1\<rparr>, w))"

text \<open>
  A mutex nobody holds, and the events of a call of \<^verbatim>\<open>connectToSerialSi1000\<close> that finds
  the state \<^verbatim>\<open>NotConnected\<close> and succeeds at its attempt number \<open>k\<close> (counting from 0),
  after \<open>k\<close> failures.
\<close>

definition free :: "RWMutex \<Rightarrow> bool" where
  "free m = (readers m = 0 \<and> \<not> writing m)"

definition retries :: "DavisSi1000 \<Rightarrow> nat \<Rightarrow> event list" where
  "retries d k =
     concat (replicate k [openEvent d, Println ''Sleeping 5 seconds and trying again'', Sleep 5])"

definition connectLog :: "DavisSi1000 \<Rightarrow> nat \<Rightarrow> event list" where
  "connectLog d k =
     [SetStatus Connecting,
      Println (''Connecting to local Si1000 on '' @ Device (Si2000 (config d)) @ '' ...'')] @
     retries d k @
     [openEvent d, SetStatus Connected,
      Println (''Connection to local Si1000 on '' @ Device (Si2000 (config d)) @ '' successful.'')]"

section \<open>Packet Reader (wxinflux.go)\<close>

text \<open>
  One call \<^verbatim>\<open>dec.Decode(&packet)\<close> gives the contents of \<^verbatim>\<open>packet\<close> after the call and the
  error returned, \<^verbatim>\<open>io.EOF\<close> or any other error (a syntax error, \<^verbatim>\<open>io.ErrUnexpectedEOF\<close>
  for a stream that ends inside a record, a type mismatch that leaves the struct partly
  filled). A record decoded without error from the JSON object \<open>j\<close> is
  \<open>(decodePacket j, None)\<close>.
\<close>

datatype go_error = EOF | OtherError string

fun errorText :: "go_error \<Rightarrow> string" where
  "errorText EOF = ''EOF''"
| "errorText (OtherError msg) = msg"

type_synonym decode_result = "WxPacket \<times> go_error option"

text \<open>
  One pass through the inner loop of \<^verbatim>\<open>readReports\<close>, given the outcome of its decode:
  the new state and the report the pass sends on the channel, if it does. The pass that
  breaks out of the inner loop includes the start of the next pass of the outer loop,
  the decoder made over the new connection.
\<close>

definition readStep ::
  "(float64 \<Rightarrow> float64) \<Rightarrow> (float64 \<Rightarrow> float64 \<Rightarrow> float64) \<Rightarrow> (nat \<Rightarrow> port option) \<Rightarrow>
   decode_result \<Rightarrow> DavisSi1000 \<times> world \<Rightarrow> ((DavisSi1000 \<times> world) \<times> WxReport option) option" where
  "readStep lg pw opens r s =
     (if snd r = Some EOF then
        Option.bind (Lock (statusMu (fst s))) (\<lambda>m1.
        Option.bind (Unlock m1) (\<lambda>m2.
        Option.bind
          (connectToSerialSi1000 opens ((fst s)\<lparr>status := NotConnected, statusMu := m2\<rparr>)
             (emit [Println (''Error reading from device: '' @ errorText EOF),
                    SetStatus NotConnected] (snd s)))
          (\<lambda>s'. Some ((fst s', emit [NewDecoder (conn (fst s'))] (snd s')), None))))
      else Some (s, Some (generateWxReport lg pw (fst r))))"

definition sendOn :: "WxReport option \<Rightarrow> DavisSi1000 \<times> world \<Rightarrow> DavisSi1000 \<times> world" where
  "sendOn out s = (case out of None \<Rightarrow> s | Some rep \<Rightarrow> (fst s, emit [Send rep] (snd s)))"

text \<open>
  \<^verbatim>\<open>readReports\<close> never returns; the model runs it over the outcomes of its first decodes,
  as many as the list holds, and returns the state then (\<open>None\<close> when a pass never
  returns).
\<close>

fun readLoop ::
  "(float64 \<Rightarrow> float64) \<Rightarrow> (float64 \<Rightarrow> float64 \<Rightarrow> float64) \<Rightarrow> (nat \<Rightarrow> port option) \<Rightarrow>
   decode_result list \<Rightarrow> DavisSi1000 \<times> world \<Rightarrow> (DavisSi1000 \<times> world) option" where
  "readLoop lg pw opens [] s = Some s"
| "readLoop lg pw opens (r # rs) s =
     (case readStep lg pw opens r s of
        None \<Rightarrow> None
      | Some (s', out) \<Rightarrow> readLoop lg pw opens rs (sendOn out s'))"

definition readReports ::
  "(float64 \<Rightarrow> float64) \<Rightarrow> (float64 \<Rightarrow> float64 \<Rightarrow> float64) \<Rightarrow> (nat \<Rightarrow> port option) \<Rightarrow>
   decode_result list \<Rightarrow> DavisSi1000 \<times> world \<Rightarrow> (DavisSi1000 \<times> world) option" where
  "readReports lg pw opens rs s =
     readLoop lg pw opens rs (fst s, emit [NewDecoder (conn (fst s))] (snd s))"

section \<open>Report Writer (wxinflux.go)\<close>

text \<open>
  Go's conversion \<^verbatim>\<open>string(b)\<close> of a \<^verbatim>\<open>uint8\<close>: the UTF-8 encoding of the code point \<open>b\<close>
  (one byte below 128, two bytes from 128 on), not its decimal digits.
\<close>

definition string_of_uint8 :: "8 word \<Rightarrow> string" where
  "string_of_uint8 b =
     (let n = unat b
      in if n < 128 then [char_of n] else [char_of (192 + n div 64), char_of (128 + n mod 64)])"

definition reportPoint :: "WxReport \<Rightarrow> nat \<Rightarrow> Point" where
  "reportPoint report now =
     \<lparr>pt_name = ''wxreport'',
      pt_tags = map_of [(''transmitter-id'', string_of_uint8 (rTransmitterID report))],
      pt_fields = map_of
        [(''wind_speed'', U8 (rWindSpeed report)),
         (''wind_dir'', U16 (rWindDir report)),
         (''temperature'', F32 (rTemperature report)),
         (''humidity'', F32 (rHumidity report)),
         (''dewpoint'', F32 (rDewpoint report)),
         (''heat_index'', F32 (rHeatIndex report)),
         (''wind_chill'', F32 (rWindChill report)),
         (''uv_index'', F32 (rUVIndex report)),
         (''solar_radiation'', F32 (rSolarRadiation report)),
         (''rainfall'', F32 (rRainfall report))],
      pt_time = now\<rparr>"

text \<open>
  What the writer meets while it handles one report: the clock, and the errors (if any)
  that \<^verbatim>\<open>influx.NewBatchPoints\<close> and \<^verbatim>\<open>ic.Write\<close> return.
\<close>

record store_env =
  now :: nat
  batchErr :: "string option"
  writeErr :: "string option"

text \<open>The batch \<^verbatim>\<open>bp\<close> after \<^verbatim>\<open>bp.AddPoint(pt)\<close>.\<close>

definition reportBatch :: "Config \<Rightarrow> WxReport \<Rightarrow> store_env \<Rightarrow> BatchPoints" where
  "reportBatch cfg report env =
     \<lparr>database = InfluxDBName (InfluxDB cfg), precision = ''s'',
      points = [reportPoint report (now env)]\<rparr>"

text \<open>One pass of the loop of \<^verbatim>\<open>storeReports\<close>, for the report it received.\<close>

definition storeStep :: "Config \<Rightarrow> WxReport \<Rightarrow> store_env \<Rightarrow> event list" where
  "storeStep cfg report env =
     NewBatchPoints (InfluxDBName (InfluxDB cfg)) ''s'' #
     (case batchErr env of
        Some err \<Rightarrow> [Println (''Error logging report to InfluxDB: '' @ err)]
      | None \<Rightarrow>
          InfluxWrite (reportBatch cfg report env) #
          (case writeErr env of
             Some err \<Rightarrow> [Println (''Error logging data point to InfluxDB: '' @ err)]
           | None \<Rightarrow> [PrintfReport report]))"

fun storeReports :: "Config \<Rightarrow> (WxReport \<times> store_env) list \<Rightarrow> event list" where
  "storeReports cfg [] = []"
| "storeReports cfg ((report, env) # rest) =
     Receive report # storeStep cfg report env @ storeReports cfg rest"

text \<open>The reports received and the batches written, read off the writer's events.\<close>

fun receives :: "event list \<Rightarrow> WxReport list" where
  "receives [] = []"
| "receives (Receive rep # es) = rep # receives es"
| "receives (e # es) = receives es"

fun writes :: "event list \<Rightarrow> BatchPoints list" where
  "writes [] = []"
| "writes (InfluxWrite bp # es) = bp # writes es"
| "writes (e # es) = writes es"

section \<open>The two goroutines and the channel\<close>

text \<open>
  \<^verbatim>\<open>main\<close> makes an unbuffered channel, starts \<^verbatim>\<open>storeReports\<close> as a goroutine and runs
  \<^verbatim>\<open>readReports\<close> itself. A state of the running program: the decode outcomes still to
  come, the report the reader is blocked sending (if any), the reader's device and world,
  the report the writer is busy storing (if any), what the writer will meet, the reports
  the writer has received so far and the writer's events. On an unbuffered channel a send
  and a receive complete together, in one step.
\<close>

record system =
  upcoming :: "decode_result list"
  sending :: "WxReport option"
  device :: "DavisSi1000 \<times> world"
  storing :: "WxReport option"
  envs :: "store_env list"
  received :: "WxReport list"
  wtrace :: "event list"

inductive step ::
  "(float64 \<Rightarrow> float64) \<Rightarrow> (float64 \<Rightarrow> float64 \<Rightarrow> float64) \<Rightarrow> (nat \<Rightarrow> port option) \<Rightarrow>
   system \<Rightarrow> system \<Rightarrow> bool"
  for lg pw opens where
    decode:
      "upcoming s = r # rs \<Longrightarrow> sending s = None \<Longrightarrow>
       readStep lg pw opens r (device s) = Some (s', out) \<Longrightarrow>
       step lg pw opens s (s\<lparr>upcoming := rs, sending := out, device := s'\<rparr>)"
  | handoff:
      "sending s = Some rep \<Longrightarrow> storing s = None \<Longrightarrow>
       step lg pw opens s
         (s\<lparr>sending := None, device := sendOn (Some rep) (device s), storing := Some rep,
            received := received s @ [rep],
            wtrace := wtrace s @ [Receive rep]\<rparr>)"
  | store:
      "storing s = Some rep \<Longrightarrow> envs s = env # es \<Longrightarrow>
       step lg pw opens s
         (s\<lparr>storing := None, envs := es,
            wtrace := wtrace s @ storeStep (config (fst (device s))) rep env\<rparr>)"

definition start :: "DavisSi1000 \<times> world \<Rightarrow> decode_result list \<Rightarrow> store_env list \<Rightarrow> system" where
  "start s rs es =
     \<lparr>upcoming = rs, sending = None,
      device = (fst s, emit [NewDecoder (conn (fst s))] (snd s)),
      storing = None, envs = es, received = [], wtrace = []\<rparr>"

definition reports_of ::
  "(float64 \<Rightarrow> float64) \<Rightarrow> (float64 \<Rightarrow> float64 \<Rightarrow> float64) \<Rightarrow> decode_result list \<Rightarrow> WxReport list" where
  "reports_of lg pw rs = map (\<lambda>r. generateWxReport lg pw (fst r)) (filter (\<lambda>r. snd r \<noteq> Some EOF) rs)"

text \<open>
  The report the reader is blocked sending, as a list; the outcome of a decode without
  error; and the state after the reader has decoded and sent the packets \<open>ps\<close> and the
  writer has received and handled every one of them.
\<close>

definition in_flight :: "system \<Rightarrow> WxReport list" where
  "in_flight s = (case sending s of None \<Rightarrow> [] | Some rep \<Rightarrow> [rep])"

definition decoded :: "WxPacket \<Rightarrow> decode_result" where
  "decoded p = (p, None)"

definition completed ::
  "(float64 \<Rightarrow> float64) \<Rightarrow> (float64 \<Rightarrow> float64 \<Rightarrow> float64) \<Rightarrow>
   DavisSi1000 \<times> world \<Rightarrow> WxPacket list \<Rightarrow> store_env list \<Rightarrow> system" where
  "completed lg pw s ps es =
     \<lparr>upcoming = [], sending = None,
      device = (fst s, emit (NewDecoder (conn (fst s)) #
                             map (\<lambda>p. Send (generateWxReport lg pw p)) ps) (snd s)),
      storing = None, envs = drop (length ps) es,
      received = map (generateWxReport lg pw) ps,
      wtrace = storeReports (config (fst s)) (zip (map (generateWxReport lg pw) ps) es)\<rparr>"

section \<open>Example inputs\<close>

text \<open>
  A JSON object of the stream that carries a humidity and no temperature, wind or rain
  key, and stand-ins for the general cases of \<^verbatim>\<open>math.Log\<close> and \<^verbatim>\<open>math.Pow\<close> for inputs
  on which the program never reaches them.
\<close>

definition example_wire :: wire where
  "example_wire =
     \<lparr>j_ready = Some True, j_status = Some ''ok'', j_transmitter_id = Some 1, j_RSSI = None,
      j_recv_packets = None, j_lost_packets = None, j_bad_CRC = None,
      j_wind_speed_mph = None, j_wind_direction_degrees = None, j_temperature_F = None,
      j_humidity_pct = Some (Finite 50), j_UV_index = None, j_solar_Wm2 = None,
      j_rain_spoons = None, j_raw = None, j_version = None\<rparr>"

definition unused_log :: "float64 \<Rightarrow> float64" where
  "unused_log x = NaN"

definition unused_pow :: "float64 \<Rightarrow> float64 \<Rightarrow> float64" where
  "unused_pow x y = NaN"

text \<open>
  The natural logarithm of 31642146 to double precision (17.2700005241...): what
  \<^verbatim>\<open>math.Log\<close> returns for a humidity of 3164214528 percent, the one input for which
  \<open>example_log\<close> is used.
\<close>

definition example_log :: "float64 \<Rightarrow> float64" where
  "example_log x = Finite (4861072995314339 / 281474976710656)"

text \<open>
  A configured device, before and after its first connection; a serial port that opens
  at the third attempt, and one that never opens; a stream that ends in the middle of a
  record (the decoder returns \<^verbatim>\<open>io.ErrUnexpectedEOF\<close> and leaves the packet at its zero
  values); the report made from a packet of zero values; and what the writer may meet.
\<close>

definition example_config :: Config where
  "example_config =
     \<lparr>InfluxDB = \<lparr>InfluxURL = ''http://localhost:8086'', InfluxDBName = ''wx'',
                  InfluxUser = ''wx'', InfluxPass = ''secret''\<rparr>,
      Si2000 = \<lparr>Device = ''/dev/ttyUSB0'', Baud = 57600\<rparr>\<rparr>"

definition example_device :: DavisSi1000 where
  "example_device = NewDavisSi1000\<lparr>config := example_config\<rparr>"

definition example_connected :: DavisSi1000 where
  "example_connected = example_device\<lparr>conn := Some 7, status := Connected\<rparr>"

definition example_opens :: "nat \<Rightarrow> port option" where
  "example_opens k = (if k < 2 then None else Some 7)"

definition never_opens :: "nat \<Rightarrow> port option" where
  "never_opens k = None"

definition empty_world :: world where
  "empty_world = \<lparr>trace = [], opened = 0\<rparr>"

definition unexpected_EOF :: go_error where
  "unexpected_EOF = OtherError ''unexpected EOF''"

definition zero_report :: WxReport where
  "zero_report =
     \<lparr>rTransmitterID = 0, rWindSpeed = 0, rWindDir = 0, rTemperature = Finite 0,
      rHumidity = Finite 0, rDewpoint = Finite 32, rHeatIndex = Finite 0,
      rWindChill = Finite 0, rUVIndex = Finite 0, rSolarRadiation = Finite 0,
      rRainfall = Finite 0\<rparr>"

definition env_batch_fails :: store_env where
  "env_batch_fails = \<lparr>now = 1000, batchErr = Some ''bad precision'', writeErr = None\<rparr>"

definition env_write_fails :: store_env where
  "env_write_fails = \<lparr>now = 1005, batchErr = None, writeErr = Some ''connection refused''\<rparr>"

definition env_ok :: store_env where
  "env_ok = \<lparr>now = 1010, batchErr = None, writeErr = None\<rparr>"

section \<open>Properties of the Metric Calculator\<close>

lemma fle_not_fless: "fle c t \<Longrightarrow> \<not> fless t c"
  by (cases c; cases t) (auto simp: fle_def)

lemma fless_not_fle: "fless c t \<Longrightarrow> \<not> fle t c"
  by (cases c; cases t) (auto simp: fle_def)

lemma f32_zero: "f32 0 = Finite 0"
  by (simp add: f32_def fround_def)

lemma cToF_zero: "cToF (Finite 0) = Finite 32"
  by code_simp

lemma dewpointCelcius_guard:
  "fless tc (f32 0) \<or> feq tc (f32 (- (2377 / 10))) \<or>
     feq (dewpoint_gamma lg tc rh) (f32 (1727 / 100))
   \<Longrightarrow> dewpointCelcius lg tc rh = Finite 0"
  by (auto simp: dewpointCelcius_def Let_def f32_zero)

text \<open>
  C2, as stated: the dewpoint function from Fahrenheit to Fahrenheit returns exactly 0.0
  whenever the input temperature is below 0 degrees Celsius. It does not: at 23 degrees
  Fahrenheit (-5 Celsius) and 50 percent humidity \<^verbatim>\<open>dewpointCelcius\<close> returns 0.0 and
  \<^verbatim>\<open>dewpointFahrenheit\<close> converts it, returning 32.0.
\<close>

theorem dewpoint_zero_counterexample:
  "fless (fToC (Finite 23)) (f32 0) \<and>
   dewpointFahrenheit unused_log (Finite 23) (Finite 50) = Finite 32 \<and>
   \<not> feq (dewpointFahrenheit unused_log (Finite 23) (Finite 50)) (Finite 0)"
  by code_simp

text \<open>
  C2, amended: for every humidity, \<^verbatim>\<open>dewpointCelcius\<close> returns exactly 0.0 whenever its
  Celsius input is below 0, is exactly -237.7, or makes \<open>\<gamma>\<close> exactly 17.27; in those cases
  \<^verbatim>\<open>dewpointFahrenheit\<close>, which converts that result to Fahrenheit, returns exactly 32.0
  (a temperature of -237.7 Celsius is below 0 Celsius).
\<close>

theorem dewpoint_guards:
  "(fless tc (f32 0) \<or> feq tc (f32 (- (2377 / 10))) \<or>
      feq (dewpoint_gamma lg tc rh) (f32 (1727 / 100))
      \<longrightarrow> dewpointCelcius lg tc rh = Finite 0) \<and>
   (fless (fToC t) (f32 0) \<or> feq (dewpoint_gamma lg (fToC t) rh) (f32 (1727 / 100))
      \<longrightarrow> dewpointFahrenheit lg t rh = Finite 32)"
  using dewpointCelcius_guard[of tc lg rh] dewpointCelcius_guard[of "fToC t" lg rh] cToF_zero
  by (auto simp: dewpointFahrenheit_def)

theorem dewpoint_guards_witness:
  "dewpointCelcius unused_log (Finite (- 5)) (Finite 50) = Finite 0 \<and>
   dewpointCelcius unused_log (f32 (- (2377 / 10))) (Finite 50) = Finite 0 \<and>
   dewpointCelcius example_log (Finite 0) (Finite 3164214528) = Finite 0 \<and>
   dewpointFahrenheit unused_log (Finite 23) (Finite 50) = Finite 32 \<and>
   dewpointFahrenheit example_log (Finite 32) (Finite 3164214528) = Finite 32"
proof -
  have h1: "fless (Finite (- 5)) (f32 0)"
    by code_simp
  have h2: "feq (f32 (- (2377 / 10))) (f32 (- (2377 / 10)))"
    by code_simp
  have h3: "feq (dewpoint_gamma example_log (Finite 0) (Finite 3164214528)) (f32 (1727 / 100))"
    by code_simp
  have h4: "fless (fToC (Finite 23)) (f32 0)"
    by code_simp
  have h5: "feq (dewpoint_gamma example_log (fToC (Finite 32)) (Finite 3164214528))
              (f32 (1727 / 100))"
    by code_simp
  show ?thesis
    using h1 h2 h3 h4 h5
      dewpoint_guards[of "Finite (- 5)" unused_log "Finite 50" "Finite 23"]
      dewpoint_guards[of "f32 (- (2377 / 10))" unused_log "Finite 50" "Finite 23"]
      dewpoint_guards[of "Finite 0" example_log "Finite 3164214528" "Finite 32"]
    by blast
qed

lemma windchill_cases:
  "(fless (f32 50) t \<or> fle ws (f32 0) \<longrightarrow> windchillFahrenheit pw t ws = t) \<and>
   (fless t (f32 50) \<and> fless (f32 0) ws \<longrightarrow>
      windchillFahrenheit pw t ws = spec_windChill_formula pw t ws)"
  by (auto simp: windchillFahrenheit_def spec_windChill_formula_def fle_def dest: fless_not_fle)

text \<open>
  C3: \<^verbatim>\<open>windChill(t, ws)\<close> returns \<open>t\<close> unchanged above the range of the formula, and
  \<open>35.74 + 0.6215 t + (-35.75 + 0.4275 t) ws^0.16\<close> for \<open>t \<le> 50\<close> with \<open>ws > 0\<close>; the comment
  in the source says the same, wind chill being valid for temperatures less than or equal
  to 50 degrees. The guard \<^verbatim>\<open>t >= 50\<close> misses the boundary: at \<open>t = 50\<close>, \<open>ws = 1\<close>, inside the
  range, \<^verbatim>\<open>windchillFahrenheit\<close> returns 50 where the formula gives about 52.44.
\<close>

theorem windchill_at_50:
  "fle (Finite 50) (f32 50) \<and> fless (f32 0) (Finite 1) \<and>
   windchillFahrenheit unused_pow (Finite 50) (Finite 1) = Finite 50 \<and>
   spec_windChill_formula unused_pow (Finite 50) (Finite 1) = Finite (859177 / 16384) \<and>
   windchillFahrenheit unused_pow (Finite 50) (Finite 1) \<noteq>
     spec_windChill_formula unused_pow (Finite 50) (Finite 1)"
  by code_simp

text \<open>
  C4: for every temperature \<open>t\<close> and relative humidity \<open>rh\<close>, \<^verbatim>\<open>heatIndexFahrenheit\<close> returns
  \<open>t\<close> unchanged whenever \<open>t < 80\<close> or \<open>rh \<le> 40\<close>, and for \<open>t \<ge> 80\<close> with \<open>rh > 40\<close> it returns
  NOAA's polynomial regression in \<open>t\<close> and \<open>rh\<close>, in single precision.
\<close>

theorem heatIndex_ok:
  "(fless t (f32 80) \<or> fle rh (f32 40) \<longrightarrow> heatIndexFahrenheit t rh = t) \<and>
   (fle (f32 80) t \<and> fless (f32 40) rh \<longrightarrow>
      heatIndexFahrenheit t rh = spec_noaa_heat_index t rh)"
proof -
  have "heatIndexFahrenheit t rh = spec_noaa_heat_index t rh"
    if "\<not> fless t (f32 80)" "\<not> fle rh (f32 40)"
    using that
    by (simp add: heatIndexFahrenheit_def spec_noaa_heat_index_def noaa_terms_def hi_term_def)
  then show ?thesis
    by (auto simp: heatIndexFahrenheit_def dest: fle_not_fless fless_not_fle)
qed

theorem heatIndex_ok_witness:
  "heatIndexFahrenheit (Finite 70) (Finite 60) = Finite 70 \<and>
   heatIndexFahrenheit (Finite 90) (Finite 30) = Finite 90 \<and>
   heatIndexFahrenheit (Finite 90) (Finite 60) = spec_noaa_heat_index (Finite 90) (Finite 60) \<and>
   spec_noaa_heat_index (Finite 90) (Finite 60) = Finite (13064977 / 131072)"
proof -
  have a: "fless (Finite 70) (f32 80)"
    by code_simp
  have b: "fle (Finite 30) (f32 40)"
    by code_simp
  have c: "fle (f32 80) (Finite 90) \<and> fless (f32 40) (Finite 60)"
    by code_simp
  have v: "spec_noaa_heat_index (Finite 90) (Finite 60) = Finite (13064977 / 131072)"
    by code_simp
  show ?thesis
    using a b c v heatIndex_ok[of "Finite 70" "Finite 60"]
      heatIndex_ok[of "Finite 90" "Finite 30"] heatIndex_ok[of "Finite 90" "Finite 60"]
    by blast
qed

text \<open>
  C8: for every tip count \<open>n\<close> (an unsigned 32-bit integer, so never negative, and
  possibly 0), the rainfall of the derived report is the single-precision product of
  \<open>n\<close>, converted to single precision, and the single-precision constant 0.1.
\<close>

theorem rainfall_ok:
  "rRainfall (generateWxReport lg pw (p\<lparr>RainSpoons := n\<rparr>)) =
     fmul binary32 (float32_of_uint n) (f32 (1 / 10))"
  by (simp add: generateWxReport_def)

lemma rainfall_examples:
  "fmul binary32 (float32_of_uint (0 :: 32 word)) (f32 (1 / 10)) = Finite 0"
  "fmul binary32 (float32_of_uint (3 :: 32 word)) (f32 (1 / 10)) = f32 (3 / 10)"
  by code_simp+

lemma decodePacket_absent:
  "j_temperature_F j = None \<Longrightarrow> Temperature (decodePacket j) = Finite 0"
  "j_humidity_pct j = None \<Longrightarrow> Humidity (decodePacket j) = Finite 0"
  "j_wind_speed_mph j = None \<Longrightarrow> WindSpeed (decodePacket j) = 0"
  "j_rain_spoons j = None \<Longrightarrow> RainSpoons (decodePacket j) = 0"
  by (simp_all add: decodePacket_def unmarshal_def orElse_def zero_WxPacket_def)

text \<open>
  C10: \<^verbatim>\<open>generateWxReport\<close> computes every derived metric for every packet, from the
  packet's fields as they are; a record decoded from a JSON object without a temperature
  key has temperature zero, so its dewpoint is \<^verbatim>\<open>dewpointFahrenheit(0, humidity)\<close> and its
  wind chill \<^verbatim>\<open>windchillFahrenheit(0, windSpeed)\<close>.
\<close>

theorem derived_unconditional:
  "rDewpoint (generateWxReport lg pw p) = dewpointFahrenheit lg (Temperature p) (Humidity p) \<and>
   rHeatIndex (generateWxReport lg pw p) = heatIndexFahrenheit (Temperature p) (Humidity p) \<and>
   rWindChill (generateWxReport lg pw p) =
     windchillFahrenheit pw (Temperature p) (float32_of_uint (WindSpeed p)) \<and>
   (j_temperature_F j = None \<longrightarrow>
      rDewpoint (generateWxReport lg pw (decodePacket j)) =
        dewpointFahrenheit lg (Finite 0) (Humidity (decodePacket j)) \<and>
      rWindChill (generateWxReport lg pw (decodePacket j)) =
        windchillFahrenheit pw (Finite 0) (float32_of_uint (WindSpeed (decodePacket j))))"
  by (simp add: generateWxReport_def decodePacket_absent)

theorem derived_unconditional_witness:
  "j_temperature_F example_wire = None \<and>
   Humidity (decodePacket example_wire) = Finite 50 \<and>
   rDewpoint (generateWxReport unused_log unused_pow (decodePacket example_wire)) = Finite 32 \<and>
   rWindChill (generateWxReport unused_log unused_pow (decodePacket example_wire)) = Finite 0"
proof -
  have h: "j_temperature_F example_wire = None"
    by (simp add: example_wire_def)
  have e0: "Humidity (decodePacket example_wire) = Finite 50"
    by code_simp
  have e1: "dewpointFahrenheit unused_log (Finite 0) (Humidity (decodePacket example_wire)) = Finite 32"
    by code_simp
  have e2: "windchillFahrenheit unused_pow (Finite 0)
              (float32_of_uint (WindSpeed (decodePacket example_wire))) = Finite 0"
    by code_simp
  have d: "rDewpoint (generateWxReport unused_log unused_pow (decodePacket example_wire)) =
             dewpointFahrenheit unused_log (Finite 0) (Humidity (decodePacket example_wire)) \<and>
           rWindChill (generateWxReport unused_log unused_pow (decodePacket example_wire)) =
             windchillFahrenheit unused_pow (Finite 0)
               (float32_of_uint (WindSpeed (decodePacket example_wire)))"
    using h derived_unconditional[of unused_log unused_pow "decodePacket example_wire" example_wire]
    by blast
  show ?thesis
    using h e0 e1 e2 d by metis
qed

section \<open>Properties of the Connection Manager\<close>

lemma lock_unlock: "free m \<Longrightarrow> Option.bind (Lock m) Unlock = Some m"
  by (simp add: free_def Lock_def Unlock_def)

lemma openLoop_success:
  "free (statusMu d) \<Longrightarrow> \<forall>i<k. opens (opened w + i) = None \<Longrightarrow> opens (opened w + k) = Some h \<Longrightarrow>
   openLoop opens d w =
     Some (d\<lparr>conn := Some h, status := Connected\<rparr>,
           \<lparr>trace = trace w @ retries d k @
              [openEvent d, SetStatus Connected,
               Println (''Connection to local Si1000 on '' @ Device (Si2000 (config d)) @ '' successful.'')],
            opened = opened w + k + 1\<rparr>)"
proof (induction k arbitrary: d w)
  case 0
  then show ?case
    by (subst openLoop.simps)
       (simp add: Let_def free_def Lock_def Unlock_def emit_def retries_def openEvent_def)
next
  case (Suc k)
  from Suc.prems(2) have o0: "opens (opened w) = None"
    by (metis add.right_neutral zero_less_Suc)
  let ?d1 = "d\<lparr>conn := None\<rparr>"
  let ?w1 = "emit [Println ''Sleeping 5 seconds and trying again'', Sleep 5]
               (emit [openEvent d] (w\<lparr>opened := Suc (opened w)\<rparr>))"
  have step: "openLoop opens d w = openLoop opens ?d1 ?w1"
    by (subst openLoop.simps) (simp add: Let_def o0)
  have a: "free (statusMu ?d1)" using Suc.prems(1) by simp
  have b: "\<forall>i<k. opens (opened ?w1 + i) = None"
    using Suc.prems(2) by (auto simp: emit_def)
  have c: "opens (opened ?w1 + k) = Some h"
    using Suc.prems(3) by (simp add: emit_def)
  show ?case
    unfolding step
    by (subst Suc.IH[OF a b c]) (simp add: emit_def retries_def openEvent_def)
qed

lemma openLoop_returns:
  "openLoop opens d w = Some r \<Longrightarrow> \<exists>k. opens (opened w + k) \<noteq> None"
proof (erule openLoop.raw_induct[where P = "\<lambda>opens d w r. \<exists>k. opens (opened w + k) \<noteq> None", rotated])
  fix f :: "(nat \<Rightarrow> port option) \<Rightarrow> DavisSi1000 \<Rightarrow> world \<Rightarrow> (DavisSi1000 \<times> world) option"
    and opens :: "nat \<Rightarrow> port option" and d :: DavisSi1000 and w :: world
    and r :: "DavisSi1000 \<times> world"
  let ?w1 = "emit [Println ''Sleeping 5 seconds and trying again'', Sleep 5]
               (emit [openEvent d] (w\<lparr>opened := Suc (opened w)\<rparr>))"
  assume IH: "\<And>opens d (w :: world) y. f opens d w = Some y \<Longrightarrow> \<exists>k. opens (opened w + k) \<noteq> None"
  assume eq: "(let d1 = d\<lparr>conn := opens (opened w)\<rparr>;
          w1 = emit [openEvent d] (w\<lparr>opened := Suc (opened w)\<rparr>)
      in case opens (opened w) of
           None \<Rightarrow>
             f opens d1 (emit [Println ''Sleeping 5 seconds and trying again'', Sleep 5] w1)
         | Some h \<Rightarrow>
             Option.bind (Lock (statusMu d1)) (\<lambda>m1.
             Option.bind (Unlock m1) (\<lambda>m2.
               Some (d1\<lparr>status := Connected, statusMu := m2\<rparr>,
                     emit [SetStatus Connected,
                           Println (''Connection to local Si1000 on '' @ Device (Si2000 (config d))
                                    @ '' successful.'')] w1)))) = Some r"
  show "\<exists>k. opens (opened w + k) \<noteq> None"
  proof (cases "opens (opened w)")
    case None
    with eq have "f opens (d\<lparr>conn := None\<rparr>) ?w1 = Some r"
      by (simp add: Let_def)
    from IH[OF this] obtain k where "opens (opened ?w1 + k) \<noteq> None"
      by blast
    then have "opens (opened w + Suc k) \<noteq> None"
      by (simp add: emit_def)
    then show ?thesis
      by blast
  next
    case (Some h)
    then have "opens (opened w + 0) \<noteq> None"
      by simp
    then show ?thesis
      by blast
  qed
qed

lemma openLoop_never:
  "\<forall>i. opens (opened w + i) = None \<Longrightarrow> openLoop opens d w = None"
  using openLoop_returns[of opens d w] by (cases "openLoop opens d w") auto

lemma free_updates:
  "free m \<Longrightarrow> m\<lparr>readers := 0, writing := False\<rparr> = m"
  "free m \<Longrightarrow> m\<lparr>readers := 0\<rparr> = m"
  "free m \<Longrightarrow> m\<lparr>writing := False\<rparr> = m"
  by (cases m; simp add: free_def)+

lemma connect_Connecting:
  "free (statusMu d) \<Longrightarrow> status d = Connecting \<Longrightarrow>
   connectToSerialSi1000 opens d w =
     Some (d, emit [Println ''Skipping reconnect since connection is in progress''] w)"
  by (simp add: connectToSerialSi1000_def RLock_def RUnlock_def free_updates)
    (simp add: free_def)

lemma connect_NotConnected:
  "free (statusMu d) \<Longrightarrow> status d = NotConnected \<Longrightarrow>
   connectToSerialSi1000 opens d w =
     openLoop opens (d\<lparr>status := Connecting\<rparr>)
       (emit [SetStatus Connecting,
              Println (''Connecting to local Si1000 on '' @ Device (Si2000 (config d)) @ '' ...'')] w)"
  by (simp add: connectToSerialSi1000_def RLock_def RUnlock_def Lock_def Unlock_def free_updates)
    (simp add: free_def)

lemma connect_Connected:
  "\<not> writing (statusMu d) \<Longrightarrow> status d = Connected \<Longrightarrow>
   connectToSerialSi1000 opens d w =
     Some (d\<lparr>statusMu := (statusMu d)\<lparr>readers := Suc (readers (statusMu d))\<rparr>\<rparr>, w)"
  by (simp add: connectToSerialSi1000_def RLock_def)

lemma connect_success:
  assumes "free (statusMu d)" "status d = NotConnected"
    and "\<forall>i<k. opens (opened w + i) = None" "opens (opened w + k) = Some h"
  shows "connectToSerialSi1000 opens d w =
     Some (d\<lparr>conn := Some h, status := Connected\<rparr>,
           \<lparr>trace = trace w @ connectLog d k, opened = opened w + k + 1\<rparr>)"
proof -
  let ?d = "d\<lparr>status := Connecting\<rparr>"
  let ?w = "emit [SetStatus Connecting,
              Println (''Connecting to local Si1000 on '' @ Device (Si2000 (config d)) @ '' ...'')] w"
  have a: "free (statusMu ?d)" using assms(1) by simp
  have b: "\<forall>i<k. opens (opened ?w + i) = None" using assms(3) by (simp add: emit_def)
  have c: "opens (opened ?w + k) = Some h" using assms(4) by (simp add: emit_def)
  show ?thesis
    unfolding connect_NotConnected[OF assms(1,2)] openLoop_success[OF a b c]
    by (simp add: emit_def connectLog_def retries_def openEvent_def)
qed

lemma connect_never:
  assumes "free (statusMu d)" "status d = NotConnected" "\<forall>i. opens (opened w + i) = None"
  shows "connectToSerialSi1000 opens d w = None"
  unfolding connect_NotConnected[OF assms(1,2)]
  by (rule openLoop_never) (simp add: emit_def assms(3))

lemma first_success:
  fixes opens :: "nat \<Rightarrow> port option"
  assumes "opens (n + k) \<noteq> None"
  obtains j h where "\<forall>i<j. opens (n + i) = None" "opens (n + j) = Some h"
proof -
  let ?j = "LEAST j. opens (n + j) \<noteq> None"
  have "opens (n + ?j) \<noteq> None"
    using assms by (rule LeastI)
  moreover have "\<forall>i<?j. opens (n + i) = None"
    using not_less_Least by blast
  ultimately show ?thesis
    using that by blast
qed

text \<open>
  C5: called on a device whose mutex nobody holds, \<^verbatim>\<open>connectToSerialSi1000\<close> returns at once
  and changes nothing (it logs a line) when the state is \<^verbatim>\<open>Connecting\<close>. When the state is
  \<^verbatim>\<open>NotConnected\<close> it first sets the state to \<^verbatim>\<open>Connecting\<close>, then tries to open the
  configured device at the configured baud rate, sleeping 5 seconds after each failure,
  for as many attempts as it takes: if the attempt number \<open>k\<close> is the first to succeed
  it returns after \<open>k\<close> failures with the opened port stored and the state \<^verbatim>\<open>Connected\<close>; if
  no attempt ever succeeds it never returns; and whenever it returns, the state is
  \<^verbatim>\<open>Connected\<close> and the stored port is the one its last attempt opened.
\<close>

theorem connect_ok:
  assumes "free (statusMu d)"
  shows "(status d = Connecting \<longrightarrow>
            connectToSerialSi1000 opens d w =
              Some (d, emit [Println ''Skipping reconnect since connection is in progress''] w)) \<and>
         (status d = NotConnected \<longrightarrow>
            (\<forall>k h. (\<forall>i<k. opens (opened w + i) = None) \<and> opens (opened w + k) = Some h \<longrightarrow>
               connectToSerialSi1000 opens d w =
                 Some (d\<lparr>conn := Some h, status := Connected\<rparr>,
                       \<lparr>trace = trace w @ connectLog d k, opened = opened w + k + 1\<rparr>)) \<and>
            ((\<forall>i. opens (opened w + i) = None) \<longrightarrow> connectToSerialSi1000 opens d w = None) \<and>
            (\<forall>d' w'. connectToSerialSi1000 opens d w = Some (d', w') \<longrightarrow>
               status d' = Connected \<and> conn d' \<noteq> None \<and> conn d' = opens (opened w' - 1)))"
proof (intro conjI impI allI)
  assume "status d = Connecting"
  then show "connectToSerialSi1000 opens d w =
      Some (d, emit [Println ''Skipping reconnect since connection is in progress''] w)"
    using assms by (rule connect_Connecting[rotated])
next
  fix k h
  assume "status d = NotConnected"
    and "(\<forall>i<k. opens (opened w + i) = None) \<and> opens (opened w + k) = Some h"
  then show "connectToSerialSi1000 opens d w =
      Some (d\<lparr>conn := Some h, status := Connected\<rparr>,
            \<lparr>trace = trace w @ connectLog d k, opened = opened w + k + 1\<rparr>)"
    using assms connect_success by blast
next
  assume "status d = NotConnected" and "\<forall>i. opens (opened w + i) = None"
  then show "connectToSerialSi1000 opens d w = None"
    using assms connect_never by blast
next
  fix d' w'
  assume nc: "status d = NotConnected"
    and r: "connectToSerialSi1000 opens d w = Some (d', w')"
  have "\<exists>k. opens (opened w + k) \<noteq> None"
  proof (rule ccontr)
    assume "\<not> (\<exists>k. opens (opened w + k) \<noteq> None)"
    then have "connectToSerialSi1000 opens d w = None"
      using assms nc connect_never by blast
    with r show False by simp
  qed
  then obtain k where "opens (opened w + k) \<noteq> None" ..
  then obtain j h where j: "\<forall>i<j. opens (opened w + i) = None" "opens (opened w + j) = Some h"
    by (rule first_success)
  from connect_success[OF assms nc j] r
  have d': "d' = d\<lparr>conn := Some h, status := Connected\<rparr>"
    and w': "w' = \<lparr>trace = trace w @ connectLog d j, opened = opened w + j + 1\<rparr>"
    by simp_all
  show "status d' = Connected" using d' by simp
  show "conn d' \<noteq> None" using d' by simp
  show "conn d' = opens (opened w' - 1)" using d' w' j(2) by simp
qed

theorem connect_ok_witness:
  "connectToSerialSi1000 example_opens (example_device\<lparr>status := Connecting\<rparr>) empty_world =
     Some (example_device\<lparr>status := Connecting\<rparr>,
           \<lparr>trace = [Println ''Skipping reconnect since connection is in progress''], opened = 0\<rparr>) \<and>
   connectToSerialSi1000 example_opens example_device empty_world =
     Some (example_device\<lparr>conn := Some 7, status := Connected\<rparr>,
           \<lparr>trace =
              [SetStatus Connecting,
               Println ''Connecting to local Si1000 on /dev/ttyUSB0 ...'',
               OpenPort ''/dev/ttyUSB0'' 57600,
               Println ''Sleeping 5 seconds and trying again'', Sleep 5,
               OpenPort ''/dev/ttyUSB0'' 57600,
               Println ''Sleeping 5 seconds and trying again'', Sleep 5,
               OpenPort ''/dev/ttyUSB0'' 57600,
               SetStatus Connected,
               Println ''Connection to local Si1000 on /dev/ttyUSB0 successful.''],
            opened = 3\<rparr>) \<and>
   connectToSerialSi1000 never_opens example_device empty_world = None"
proof -
  have f1: "free (statusMu (example_device\<lparr>status := Connecting\<rparr>))"
    and f2: "free (statusMu example_device)"
    by (simp_all add: example_device_def NewDavisSi1000_def free_def)
  have s1: "status (example_device\<lparr>status := Connecting\<rparr>) = Connecting"
    and s2: "status example_device = NotConnected"
    by (simp_all add: example_device_def NewDavisSi1000_def)
  have o: "(\<forall>i<2. example_opens (opened empty_world + i) = None) \<and>
           example_opens (opened empty_world + 2) = Some 7"
    by (simp add: example_opens_def empty_world_def)
  have n: "\<forall>i. never_opens (opened empty_world + i) = None"
    by (simp add: never_opens_def)
  have l: "connectLog example_device 2 =
      [SetStatus Connecting,
               Println ''Connecting to local Si1000 on /dev/ttyUSB0 ...'',
               OpenPort ''/dev/ttyUSB0'' 57600,
               Println ''Sleeping 5 seconds and trying again'', Sleep 5,
               OpenPort ''/dev/ttyUSB0'' 57600,
               Println ''Sleeping 5 seconds and trying again'', Sleep 5,
               OpenPort ''/dev/ttyUSB0'' 57600,
               SetStatus Connected,
               Println ''Connection to local Si1000 on /dev/ttyUSB0 successful.'']"
  proof -
    have r2: "retries d 2 =
        [openEvent d, Println ''Sleeping 5 seconds and trying again'', Sleep 5,
         openEvent d, Println ''Sleeping 5 seconds and trying again'', Sleep 5]" for d
      by (simp add: retries_def numeral_2_eq_2)
    have oe: "openEvent example_device = OpenPort ''/dev/ttyUSB0'' 57600"
      by (simp add: openEvent_def example_device_def example_config_def)
    have dv: "Device (Si2000 (config example_device)) = ''/dev/ttyUSB0''"
      by (simp add: example_device_def example_config_def)
    show ?thesis
      by (simp add: connectLog_def r2 oe dv)
  qed
  have a: "connectToSerialSi1000 example_opens (example_device\<lparr>status := Connecting\<rparr>) empty_world =
     Some (example_device\<lparr>status := Connecting\<rparr>,
           emit [Println ''Skipping reconnect since connection is in progress''] empty_world)"
    using connect_ok[OF f1, of example_opens empty_world] s1 by blast
  have b: "connectToSerialSi1000 example_opens example_device empty_world =
     Some (example_device\<lparr>conn := Some 7, status := Connected\<rparr>,
           \<lparr>trace = trace empty_world @ connectLog example_device 2, opened = opened empty_world + 2 + 1\<rparr>)"
    using connect_ok[OF f2, of example_opens empty_world] s2 o by blast
  have c: "connectToSerialSi1000 never_opens example_device empty_world = None"
    using connect_ok[OF f2, of never_opens empty_world] s2 n by blast
  show ?thesis
    unfolding a b c l by (simp add: emit_def empty_world_def)
qed

text \<open>
  C9: when the state is \<^verbatim>\<open>Connected\<close> (and no writer holds the mutex),
  \<^verbatim>\<open>connectToSerialSi1000\<close> returns at once: it does not try to open the device and logs
  nothing (the world is unchanged), and it leaves the state, the stored port and the
  configuration as they were. The switch has no case for \<^verbatim>\<open>Connected\<close>, so the read lock
  taken before the switch is still held on return.
\<close>

theorem connect_when_connected:
  assumes "status d = Connected" and "\<not> writing (statusMu d)"
  shows "\<exists>d'. connectToSerialSi1000 opens d w = Some (d', w) \<and>
           status d' = status d \<and> conn d' = conn d \<and> config d' = config d \<and>
           statusMu d' = (statusMu d)\<lparr>readers := Suc (readers (statusMu d))\<rparr>"
  using assms by (simp add: connect_Connected)

theorem connect_when_connected_witness:
  "connectToSerialSi1000 example_opens example_connected empty_world =
     Some (example_connected\<lparr>statusMu := \<lparr>readers = 1, writing = False\<rparr>\<rparr>, empty_world)"
proof -
  have s: "status example_connected = Connected"
    and m: "\<not> writing (statusMu example_connected)"
    by (simp_all add: example_connected_def example_device_def NewDavisSi1000_def)
  from connect_when_connected[OF s m, of example_opens empty_world]
  obtain d' where r: "connectToSerialSi1000 example_opens example_connected empty_world = Some (d', empty_world)"
    and d': "status d' = status example_connected" "conn d' = conn example_connected"
      "config d' = config example_connected"
      "statusMu d' = (statusMu example_connected)\<lparr>readers := Suc (readers (statusMu example_connected))\<rparr>"
    by blast
  have "d' = example_connected\<lparr>statusMu := \<lparr>readers = 1, writing = False\<rparr>\<rparr>"
    using d' by (simp add: example_connected_def example_device_def NewDavisSi1000_def)
  with r show ?thesis
    by simp
qed

section \<open>Properties of the Packet Reader\<close>

lemma zero_report_eq: "generateWxReport unused_log unused_pow zero_WxPacket = zero_report"
  by code_simp

lemma readStep_not_EOF:
  "e \<noteq> Some EOF \<Longrightarrow> readStep lg pw opens (p, e) s = Some (s, Some (generateWxReport lg pw p))"
  by (simp add: readStep_def)

lemma readStep_EOF:
  assumes "free (statusMu d)"
    and "\<forall>i<k. opens (opened w + i) = None" "opens (opened w + k) = Some h"
  shows "readStep lg pw opens (p, Some EOF) (d, w) =
     Some ((d\<lparr>conn := Some h, status := Connected\<rparr>,
            \<lparr>trace = trace w @ [Println ''Error reading from device: EOF'', SetStatus NotConnected] @
                 connectLog d k @ [NewDecoder (Some h)],
             opened = opened w + k + 1\<rparr>), None)"
proof -
  let ?d = "d\<lparr>status := NotConnected\<rparr>"
  let ?w = "emit [Println ''Error reading from device: EOF'', SetStatus NotConnected] w"
  have a: "free (statusMu ?d)" "status ?d = NotConnected"
    using assms(1) by simp_all
  have b: "\<forall>i<k. opens (opened ?w + i) = None" "opens (opened ?w + k) = Some h"
    using assms(2,3) by (simp_all add: emit_def)
  have c: "connectToSerialSi1000 opens ?d ?w =
      Some (?d\<lparr>conn := Some h, status := Connected\<rparr>,
            \<lparr>trace = trace ?w @ connectLog ?d k, opened = opened ?w + k + 1\<rparr>)"
    by (rule connect_success[OF a b])
  have l: "connectLog ?d k = connectLog d k"
    by (simp add: connectLog_def retries_def openEvent_def)
  have m: "Option.bind (Lock (statusMu d)) Unlock = Some (statusMu d)"
    using assms(1) by (rule lock_unlock)
  have lk: "Lock (statusMu d) = Some ((statusMu d)\<lparr>writing := True\<rparr>)"
    using assms(1) by (simp add: Lock_def free_def)
  have ul: "Unlock ((statusMu d)\<lparr>writing := True\<rparr>) = Some (statusMu d)"
    using assms(1) by (simp add: Unlock_def free_updates)
  have st: "d\<lparr>status := NotConnected, statusMu := statusMu d\<rparr> = ?d"
    by simp
  show ?thesis
    by (simp add: readStep_def lk ul st c l) (simp add: emit_def)
qed

text \<open>
  C1 asks that a decode ending in end-of-stream or in any other error make the reader
  mark the state \<^verbatim>\<open>NotConnected\<close>, reconnect, take a fresh decoder and publish nothing. The
  reader does so for \<^verbatim>\<open>io.EOF\<close> only (\<open>readStep_EOF\<close>). For a stream that ends inside a
  record the decoder returns \<^verbatim>\<open>io.ErrUnexpectedEOF\<close>: the reader then keeps the state
  \<^verbatim>\<open>Connected\<close>, does not reconnect, makes no new decoder, and sends the report built from
  the packet the failed decode left behind.
\<close>

theorem decode_error_is_published:
  "readReports unused_log unused_pow example_opens [(zero_WxPacket, Some unexpected_EOF)]
     (example_connected, empty_world) =
   Some (example_connected, \<lparr>trace = [NewDecoder (Some 7), Send zero_report], opened = 0\<rparr>)"
  by (simp add: readReports_def readStep_not_EOF unexpected_EOF_def sendOn_def emit_def
      zero_report_eq empty_world_def example_connected_def)

section \<open>Properties of the Report Writer\<close>

lemma receives_append: "receives (xs @ ys) = receives xs @ receives ys"
  by (induction xs rule: receives.induct) simp_all

lemma writes_append: "writes (xs @ ys) = writes xs @ writes ys"
  by (induction xs rule: writes.induct) simp_all

lemma receives_storeStep: "receives (storeStep cfg rep env) = []"
  by (simp add: storeStep_def split: option.splits)

lemma writes_storeStep:
  "writes (storeStep cfg rep env) = (if batchErr env = None then [reportBatch cfg rep env] else [])"
  by (simp add: storeStep_def reportBatch_def split: option.splits)

lemma storeReports_append:
  "storeReports cfg (xs @ ys) = storeReports cfg xs @ storeReports cfg ys"
  by (induction xs) auto

lemma receives_storeReports: "receives (storeReports cfg xs) = map fst xs"
  by (induction xs) (auto simp: receives_append receives_storeStep)

lemma writes_storeReports:
  "writes (storeReports cfg xs) =
     map (\<lambda>x. reportBatch cfg (fst x) (snd x)) (filter (\<lambda>x. batchErr (snd x) = None) xs)"
  by (induction xs) (auto simp: writes_append writes_storeStep)

text \<open>
  C6: when building the batch fails for a report, the writer logs the error and writes
  nothing for it; when the write fails, it logs the error after that one write; in both
  cases the pass ends there. Whatever happened to the reports before, the writer then
  receives the next report and handles it as it would any other, starting with a new
  batch. Over any sequence of reports the writer receives every one, in order, and writes
  one batch for each report whose batch was built: a failure neither stops the loop nor
  causes a retry.
\<close>

theorem store_failure_continues:
  "(batchErr env = Some err \<longrightarrow>
      storeStep cfg rep env =
        [NewBatchPoints (InfluxDBName (InfluxDB cfg)) ''s'',
         Println (''Error logging report to InfluxDB: '' @ err)]) \<and>
   (batchErr env = None \<and> writeErr env = Some err \<longrightarrow>
      storeStep cfg rep env =
        [NewBatchPoints (InfluxDBName (InfluxDB cfg)) ''s'',
         InfluxWrite (reportBatch cfg rep env),
         Println (''Error logging data point to InfluxDB: '' @ err)]) \<and>
   storeReports cfg (before @ (rep, env) # (rep', env') # after) =
     storeReports cfg before @ Receive rep # storeStep cfg rep env @
     Receive rep' # storeStep cfg rep' env' @ storeReports cfg after \<and>
   hd (storeStep cfg rep' env') = NewBatchPoints (InfluxDBName (InfluxDB cfg)) ''s'' \<and>
   receives (storeReports cfg xs) = map fst xs \<and>
   writes (storeReports cfg xs) =
     map (\<lambda>x. reportBatch cfg (fst x) (snd x)) (filter (\<lambda>x. batchErr (snd x) = None) xs)"
  by (simp add: storeReports_append receives_storeReports writes_storeReports)
    (simp add: storeStep_def reportBatch_def)

theorem store_failure_continues_witness:
  "storeReports example_config
     [(zero_report, env_batch_fails), (zero_report, env_write_fails), (zero_report, env_ok)] =
   [Receive zero_report,
    NewBatchPoints ''wx'' ''s'',
    Println ''Error logging report to InfluxDB: bad precision'',
    Receive zero_report,
    NewBatchPoints ''wx'' ''s'',
    InfluxWrite (reportBatch example_config zero_report env_write_fails),
    Println ''Error logging data point to InfluxDB: connection refused'',
    Receive zero_report,
    NewBatchPoints ''wx'' ''s'',
    InfluxWrite (reportBatch example_config zero_report env_ok),
    PrintfReport zero_report]"
proof -
  have b: "batchErr env_batch_fails = Some ''bad precision''"
    by (simp add: env_batch_fails_def)
  have w: "batchErr env_write_fails = None \<and> writeErr env_write_fails = Some ''connection refused''"
    by (simp add: env_write_fails_def)
  have n: "InfluxDBName (InfluxDB example_config) = ''wx''"
    by (simp add: example_config_def)
  have s1: "storeStep example_config zero_report env_batch_fails =
      [NewBatchPoints ''wx'' ''s'', Println ''Error logging report to InfluxDB: bad precision'']"
    using store_failure_continues[of env_batch_fails "''bad precision''" example_config zero_report]
      b n by simp
  have s2: "storeStep example_config zero_report env_write_fails =
      [NewBatchPoints ''wx'' ''s'',
       InfluxWrite (reportBatch example_config zero_report env_write_fails),
       Println ''Error logging data point to InfluxDB: connection refused'']"
    using store_failure_continues[of env_write_fails "''connection refused''" example_config zero_report]
      w n by simp
  have s3: "storeStep example_config zero_report env_ok =
      [NewBatchPoints ''wx'' ''s'',
       InfluxWrite (reportBatch example_config zero_report env_ok),
       PrintfReport zero_report]"
    by (simp add: storeStep_def env_ok_def reportBatch_def n)
  have "storeReports example_config
     ([] @ (zero_report, env_batch_fails) # (zero_report, env_write_fails) # [(zero_report, env_ok)]) =
     storeReports example_config [] @ Receive zero_report #
       storeStep example_config zero_report env_batch_fails @
       Receive zero_report # storeStep example_config zero_report env_write_fails @
       storeReports example_config [(zero_report, env_ok)]"
    using store_failure_continues[of env_batch_fails "''bad precision''" example_config zero_report
        "[]" zero_report env_write_fails "[(zero_report, env_ok)]"]
    by blast
  then show ?thesis
    by (simp add: s1 s2 s3)
qed

section \<open>Properties of the channel\<close>

lemma readStep_out:
  "readStep lg pw opens r s = Some (s', out) \<Longrightarrow>
   out = (if snd r = Some EOF then None else Some (generateWxReport lg pw (fst r)))"
  by (auto simp: readStep_def split: if_splits bind_splits)

lemma step_keeps_order:
  assumes "step lg pw opens s t"
  shows "received t @ in_flight t @ reports_of lg pw (upcoming t) =
         received s @ in_flight s @ reports_of lg pw (upcoming s)"
  using assms
proof cases
  case (decode r rs s' out)
  from readStep_out[OF decode(4)] decode(1,2,3) show ?thesis
    by (simp add: in_flight_def reports_of_def)
next
  case (handoff rep)
  then show ?thesis
    by (simp add: in_flight_def)
next
  case (store rep env es)
  then show ?thesis
    by (simp add: in_flight_def)
qed

lemma run_keeps_order:
  assumes "rtranclp (step lg pw opens) s t"
  shows "received t @ in_flight t @ reports_of lg pw (upcoming t) =
         received s @ in_flight s @ reports_of lg pw (upcoming s)"
  using assms by (induction rule: rtranclp_induct) (simp_all add: step_keeps_order)

lemma reports_of_decoded: "reports_of lg pw (map decoded ps) = map (generateWxReport lg pw) ps"
  by (induction ps) (simp_all add: reports_of_def decoded_def)

lemma three_steps:
  assumes u: "upcoming s = decoded p # rs" and "sending s = None" and "storing s = None"
    and e: "envs s = env # es"
  shows "rtranclp (step lg pw opens) s
     (s\<lparr>upcoming := rs,
        device := (fst (device s), emit [Send (generateWxReport lg pw p)] (snd (device s))),
        envs := es,
        received := received s @ [generateWxReport lg pw p],
        wtrace := wtrace s @ Receive (generateWxReport lg pw p) #
                  storeStep (config (fst (device s))) (generateWxReport lg pw p) env\<rparr>)"
proof -
  let ?rep = "generateWxReport lg pw p"
  let ?s1 = "s\<lparr>upcoming := rs, sending := Some ?rep, device := device s\<rparr>"
  let ?s2 = "?s1\<lparr>sending := None, device := sendOn (Some ?rep) (device ?s1), storing := Some ?rep,
            received := received ?s1 @ [?rep], wtrace := wtrace ?s1 @ [Receive ?rep]\<rparr>"
  let ?s3 = "?s2\<lparr>storing := None, envs := es,
            wtrace := wtrace ?s2 @ storeStep (config (fst (device ?s2))) ?rep env\<rparr>"
  have r: "readStep lg pw opens (decoded p) (device s) = Some (device s, Some ?rep)"
    by (simp add: decoded_def readStep_not_EOF)
  have 1: "step lg pw opens s ?s1"
    by (rule step.decode[OF u assms(2) r])
  have 2: "step lg pw opens ?s1 ?s2"
    by (rule step.handoff) (simp_all add: assms(3))
  have 3: "step lg pw opens ?s2 ?s3"
    by (rule step.store) (simp_all add: e)
  have "rtranclp (step lg pw opens) s ?s3"
    using 1 2 3 by (meson rtranclp.rtrancl_into_rtrancl rtranclp.rtrancl_refl)
  moreover have "?s3 = s\<lparr>upcoming := rs,
        device := (fst (device s), emit [Send ?rep] (snd (device s))),
        envs := es,
        received := received s @ [?rep],
        wtrace := wtrace s @ Receive ?rep # storeStep (config (fst (device s))) ?rep env\<rparr>"
    using assms(2,3) by (simp add: sendOn_def)
  ultimately show ?thesis
    by simp
qed

lemma run_from:
  assumes "upcoming s = map decoded ps" "sending s = None" "storing s = None"
    and "length ps \<le> length (envs s)"
  shows "rtranclp (step lg pw opens) s
     (s\<lparr>upcoming := [],
        device := (fst (device s), emit (map (\<lambda>p. Send (generateWxReport lg pw p)) ps) (snd (device s))),
        envs := drop (length ps) (envs s),
        received := received s @ map (generateWxReport lg pw) ps,
        wtrace := wtrace s @ storeReports (config (fst (device s)))
                    (zip (map (generateWxReport lg pw) ps) (envs s))\<rparr>)"
  using assms
proof (induction ps arbitrary: s)
  case Nil
  then have "s\<lparr>upcoming := [], device := (fst (device s), emit [] (snd (device s))),
        envs := envs s, received := received s, wtrace := wtrace s\<rparr> = s"
    by (simp add: emit_def)
  then show ?case
    by simp
next
  case (Cons p ps)
  from Cons.prems(4) obtain env es where e: "envs s = env # es"
    by (cases "envs s") auto
  let ?rep = "generateWxReport lg pw p"
  let ?t = "s\<lparr>upcoming := map decoded ps,
        device := (fst (device s), emit [Send ?rep] (snd (device s))),
        envs := es,
        received := received s @ [?rep],
        wtrace := wtrace s @ Receive ?rep # storeStep (config (fst (device s))) ?rep env\<rparr>"
  have u: "upcoming s = decoded p # map decoded ps"
    using Cons.prems(1) by simp
  have first: "rtranclp (step lg pw opens) s ?t"
    by (rule three_steps[OF u Cons.prems(2,3) e])
  have rest: "rtranclp (step lg pw opens) ?t
     (?t\<lparr>upcoming := [],
        device := (fst (device ?t), emit (map (\<lambda>p. Send (generateWxReport lg pw p)) ps) (snd (device ?t))),
        envs := drop (length ps) (envs ?t),
        received := received ?t @ map (generateWxReport lg pw) ps,
        wtrace := wtrace ?t @ storeReports (config (fst (device ?t)))
                    (zip (map (generateWxReport lg pw) ps) (envs ?t))\<rparr>)"
    using Cons.prems e by (intro Cons.IH) simp_all
  have "rtranclp (step lg pw opens) s
     (?t\<lparr>upcoming := [],
        device := (fst (device ?t), emit (map (\<lambda>p. Send (generateWxReport lg pw p)) ps) (snd (device ?t))),
        envs := drop (length ps) (envs ?t),
        received := received ?t @ map (generateWxReport lg pw) ps,
        wtrace := wtrace ?t @ storeReports (config (fst (device ?t)))
                    (zip (map (generateWxReport lg pw) ps) (envs ?t))\<rparr>)"
    using first rest by (rule rtranclp_trans)
  then show ?case
    by (simp add: e emit_def)
qed

lemma complete_run:
  assumes "length ps \<le> length es"
  shows "rtranclp (step lg pw opens) (start s0 (map decoded ps) es) (completed lg pw s0 ps es)"
proof -
  have "rtranclp (step lg pw opens) (start s0 (map decoded ps) es)
     ((start s0 (map decoded ps) es)\<lparr>upcoming := [],
        device := (fst (device (start s0 (map decoded ps) es)),
                   emit (map (\<lambda>p. Send (generateWxReport lg pw p)) ps) (snd (device (start s0 (map decoded ps) es)))),
        envs := drop (length ps) (envs (start s0 (map decoded ps) es)),
        received := received (start s0 (map decoded ps) es) @ map (generateWxReport lg pw) ps,
        wtrace := wtrace (start s0 (map decoded ps) es) @
                  storeReports (config (fst (device (start s0 (map decoded ps) es))))
                    (zip (map (generateWxReport lg pw) ps) (envs (start s0 (map decoded ps) es)))\<rparr>)"
    using assms by (intro run_from) (simp_all add: start_def)
  then show ?thesis
    by (simp add: start_def completed_def emit_def)
qed

text \<open>
  C7: let the reader decode the records \<open>ps\<close>, in this order. In every state the two
  goroutines can reach, the reports the writer has received are the reports of a first
  part of \<open>ps\<close>, in the same order, none of them twice; and once the reader has sent them
  all, the writer has received exactly the reports of \<open>ps\<close>.
\<close>

theorem writer_sees_decode_order:
  assumes "rtranclp (step lg pw opens) (start s0 (map decoded ps) es) s"
  shows "prefix (received s) (map (generateWxReport lg pw) ps) \<and>
         (upcoming s = [] \<and> sending s = None \<longrightarrow> received s = map (generateWxReport lg pw) ps)"
proof -
  have eq: "received s @ in_flight s @ reports_of lg pw (upcoming s) =
      map (generateWxReport lg pw) ps"
    using run_keeps_order[OF assms] by (simp add: start_def in_flight_def reports_of_decoded)
  have "prefix (received s) (map (generateWxReport lg pw) ps)"
    unfolding eq[symmetric] by simp
  moreover have "upcoming s = [] \<and> sending s = None \<longrightarrow>
      received s = map (generateWxReport lg pw) ps"
    using eq by (auto simp: in_flight_def reports_of_def)
  ultimately show ?thesis
    by blast
qed

theorem writer_sees_decode_order_witness:
  "rtranclp (step unused_log unused_pow example_opens)
     (start (example_connected, empty_world)
        (map decoded [zero_WxPacket, decodePacket example_wire]) [env_write_fails, env_ok])
     (completed unused_log unused_pow (example_connected, empty_world)
        [zero_WxPacket, decodePacket example_wire] [env_write_fails, env_ok]) \<and>
   received (completed unused_log unused_pow (example_connected, empty_world)
        [zero_WxPacket, decodePacket example_wire] [env_write_fails, env_ok]) =
     [generateWxReport unused_log unused_pow zero_WxPacket,
      generateWxReport unused_log unused_pow (decodePacket example_wire)]"
proof -
  have r: "rtranclp (step unused_log unused_pow example_opens)
     (start (example_connected, empty_world)
        (map decoded [zero_WxPacket, decodePacket example_wire]) [env_write_fails, env_ok])
     (completed unused_log unused_pow (example_connected, empty_world)
        [zero_WxPacket, decodePacket example_wire] [env_write_fails, env_ok])"
    by (rule complete_run) simp
  have q: "upcoming (completed unused_log unused_pow (example_connected, empty_world)
        [zero_WxPacket, decodePacket example_wire] [env_write_fails, env_ok]) = [] \<and>
      sending (completed unused_log unused_pow (example_connected, empty_world)
        [zero_WxPacket, decodePacket example_wire] [env_write_fails, env_ok]) = None"
    by (simp add: completed_def)
  from writer_sees_decode_order[OF r] q
  have "received (completed unused_log unused_pow (example_connected, empty_world)
        [zero_WxPacket, decodePacket example_wire] [env_write_fails, env_ok]) =
     map (generateWxReport unused_log unused_pow) [zero_WxPacket, decodePacket example_wire]"
    by blast
  with r show ?thesis
    by simp
qed

end
